theory Spec2Isabelle
  imports Main
begin

section \<open>Data model\<close>

text \<open>
  Go strings are byte sequences; they are modelled as \<open>string\<close> (a list of characters).
  Of \<open>http.Cookie\<close> only the four fields the plugin reads or writes are modelled; an
  unset Go string field is the empty string.
\<close>

record Cookie =
  Name :: string
  Value :: string
  Path :: string
  Domain :: string

text \<open>The plugin configuration (\<open>type Config struct\<close>).\<close>

record Config =
  SourceCookieName :: string
  TargetCookieName :: string
  UseDynamicDomain :: bool
  Secure :: bool
  HttpOnly :: bool
  SameSite :: string
  Path :: string
  Debug :: bool

definition CreateConfig :: Config where
  "CreateConfig =
     \<lparr> SourceCookieName = ''flowise_token'',
       TargetCookieName = ''simple_token'',
       UseDynamicDomain = True,
       Secure = False,
       HttpOnly = False,
       SameSite = ''Lax'',
       Path = ''/'',
       Debug = False \<rparr>"

text \<open>
  \<open>http.Header\<close> is \<open>map[string][]string\<close>. The four methods the plugin calls are
  modelled after their library contract; the keys used (\<open>Cookie\<close>, \<open>Set-Cookie\<close>) are
  already in canonical form.
\<close>

type_synonym Header = "string \<rightharpoonup> string list"

definition Header_Values :: "Header \<Rightarrow> string \<Rightarrow> string list" where
  "Header_Values h k = (case h k of None \<Rightarrow> [] | Some vs \<Rightarrow> vs)"

definition Header_Set :: "Header \<Rightarrow> string \<Rightarrow> string \<Rightarrow> Header" where
  "Header_Set h k v = h(k \<mapsto> [v])"

definition Header_Del :: "Header \<Rightarrow> string \<Rightarrow> Header" where
  "Header_Del h k = h(k := None)"

definition Header_Add :: "Header \<Rightarrow> string \<Rightarrow> string \<Rightarrow> Header" where
  "Header_Add h k v = h(k \<mapsto> Header_Values h k @ [v])"

text \<open>The part of \<open>http.Request\<close> the plugin touches: the host field and the header map.\<close>

record Request =
  Host :: string
  Header :: Header

section \<open>Library string functions\<close>

text \<open>\<open>strings.HasPrefix\<close>, \<open>strings.Contains\<close>, \<open>strings.Join\<close> and
  \<open>strings.Replace\<close> with count 1 (the only count the plugin passes), on byte strings.\<close>

fun strings_HasPrefix :: "string \<Rightarrow> string \<Rightarrow> bool" where
  "strings_HasPrefix s [] = True"
| "strings_HasPrefix [] (p # ps) = False"
| "strings_HasPrefix (c # s) (p # ps) = (c = p \<and> strings_HasPrefix s ps)"

fun strings_Contains :: "string \<Rightarrow> string \<Rightarrow> bool" where
  "strings_Contains [] substr = (substr = [])"
| "strings_Contains (c # s) substr =
     (if strings_HasPrefix (c # s) substr then True else strings_Contains s substr)"

fun strings_Join :: "string list \<Rightarrow> string \<Rightarrow> string" where
  "strings_Join [] sep = []"
| "strings_Join [e] sep = e"
| "strings_Join (e # es) sep = e @ sep @ strings_Join es sep"

fun strings_Replace1 :: "string \<Rightarrow> string \<Rightarrow> string \<Rightarrow> string" where
  "strings_Replace1 [] old new = (if old = [] then new else [])"
| "strings_Replace1 (c # s) old new =
     (if strings_HasPrefix (c # s) old then new @ drop (length old) (c # s)
      else c # strings_Replace1 s old new)"

section \<open>Construction\<close>

text \<open>
  \<open>CookieModifier\<close> holds the plugin instance. Its Go fields are \<open>next\<close>, \<open>config\<close> and
  \<open>name\<close>; they carry the prefix \<open>cm_\<close> here. The next handler is a value of an
  arbitrary type \<open>'h\<close>.
\<close>

record 'h CookieModifier =
  cm_next :: 'h
  cm_config :: Config
  cm_name :: string

text \<open>
  What \<open>New\<close> prints on standard output: one event per \<open>fmt.Printf\<close> call, carrying the
  argument of the call instead of the formatted text.
\<close>

datatype printed = Initialized Config

datatype error = ConfigError string

text \<open>
  \<open>New\<close> returns \<open>(nil, err)\<close> or \<open>(handler, nil)\<close>: a sum, paired with the output it
  printed. The context argument is not used by the source and is left out.
\<close>

definition New :: "'h \<Rightarrow> Config \<Rightarrow> string \<Rightarrow> (error + 'h CookieModifier) \<times> printed list" where
  "New nxt config name =
     (if SourceCookieName config = '''' then
        (Inl (ConfigError ''sourceCookieName cannot be empty''), [])
      else if TargetCookieName config = '''' then
        (Inl (ConfigError ''targetCookieName cannot be empty''), [])
      else
        (Inr \<lparr> cm_next = nxt, cm_config = config, cm_name = name \<rparr>,
         if Debug config then [Initialized config] else []))"

section \<open>Request phase\<close>

text \<open>
  The first loop of \<open>transformRequestCookies\<close>: the state is the pair
  \<open>(newCookies, foundSourceCookie)\<close>, a nil pointer being \<open>None\<close>. The \<open>Debug\<close> branches of
  the request and response phases only print and are left out.
\<close>

fun scanCookies :: "Config \<Rightarrow> Cookie list \<Rightarrow> Cookie list \<times> Cookie option
    \<Rightarrow> Cookie list \<times> Cookie option" where
  "scanCookies cfg [] acc = acc"
| "scanCookies cfg (cookie # cookies) (newCookies, foundSourceCookie) =
     (if Name cookie = SourceCookieName cfg
      then scanCookies cfg cookies (newCookies, Some cookie)
      else scanCookies cfg cookies (newCookies @ [cookie], foundSourceCookie))"

text \<open>The cookie built when a source cookie was found, with its optional domain.\<close>

definition transformedCookie :: "Config \<Rightarrow> Request \<Rightarrow> Cookie \<Rightarrow> Cookie" where
  "transformedCookie cfg req foundSourceCookie =
     (let c = \<lparr> Name = TargetCookieName cfg, Value = Value foundSourceCookie,
                 Path = Config.Path cfg, Domain = '''' \<rparr>
      in if UseDynamicDomain cfg
         then (if Host req = '''' then c else c\<lparr> Domain := Host req \<rparr>)
         else c)"

text \<open>
  The value of \<open>newCookies\<close> when the header is rebuilt, or \<open>None\<close> when no source cookie
  was found. \<open>cookies\<close> is what \<open>req.Cookies()\<close> returned on entry: the parser belongs
  to the standard library, so its result is an argument.
\<close>

definition rebuiltCookies :: "Config \<Rightarrow> Cookie list \<Rightarrow> Request \<Rightarrow> Cookie list option" where
  "rebuiltCookies cfg cookies req =
     (case scanCookies cfg cookies ([], None) of
        (kept, None) \<Rightarrow> None
      | (kept, Some foundSourceCookie) \<Rightarrow>
          Some (kept @ [transformedCookie cfg req foundSourceCookie]))"

text \<open>\<open>fmt.Sprintf("%s=%s", cookie.Name, cookie.Value)\<close>.\<close>

definition cookieString :: "Cookie \<Rightarrow> string" where
  "cookieString cookie = Name cookie @ ''='' @ Value cookie"

definition transformRequestCookies :: "Config \<Rightarrow> Cookie list \<Rightarrow> Request \<Rightarrow> Request" where
  "transformRequestCookies cfg cookies req =
     (case rebuiltCookies cfg cookies req of
        None \<Rightarrow> req
      | Some cs \<Rightarrow>
          req\<lparr> Header := Header_Set (Header req) ''Cookie''
                              (strings_Join (map cookieString cs) ''; '') \<rparr>)"

section \<open>Response phase\<close>

text \<open>
  The wrapped writer, as far as the contract of \<open>http.ResponseWriter\<close> goes: the header
  map that \<open>Header()\<close> returns, the status code and the headers that were sent once the
  status is committed, and the body written so far.
\<close>

record ResponseWriter =
  rw_header :: Header
  rw_committed :: "(int \<times> Header) option"
  rw_body :: string

text \<open>
  \<open>responseWriter\<close> embeds the wrapped writer and holds the request and the
  configuration (Go fields \<open>ResponseWriter\<close>, \<open>req\<close>, \<open>config\<close>; prefix \<open>w_\<close> here).
\<close>

record responseWriter =
  w_ResponseWriter :: ResponseWriter
  w_req :: Request
  w_config :: Config

text \<open>
  The body of the matching branch of the loop in \<open>transformResponseCookies\<close>: the
  variable \<open>transformedHeader\<close> is renamed once and then extended step by step, each
  test reading its current value.
\<close>

definition addDomain :: "Config \<Rightarrow> string \<Rightarrow> string \<Rightarrow> string" where
  "addDomain cfg host transformedHeader =
     (if UseDynamicDomain cfg \<and> \<not> strings_Contains transformedHeader ''Domain=''
      then transformedHeader @ ''; Domain='' @ host else transformedHeader)"

definition addPath :: "Config \<Rightarrow> string \<Rightarrow> string" where
  "addPath cfg transformedHeader =
     (if Config.Path cfg \<noteq> ''/'' \<and> \<not> strings_Contains transformedHeader ''Path=''
      then transformedHeader @ ''; Path='' @ Config.Path cfg else transformedHeader)"

definition addSecure :: "Config \<Rightarrow> string \<Rightarrow> string" where
  "addSecure cfg transformedHeader =
     (if Secure cfg \<and> \<not> strings_Contains transformedHeader ''Secure''
      then transformedHeader @ ''; Secure'' else transformedHeader)"

definition addHttpOnly :: "Config \<Rightarrow> string \<Rightarrow> string" where
  "addHttpOnly cfg transformedHeader =
     (if HttpOnly cfg \<and> \<not> strings_Contains transformedHeader ''HttpOnly''
      then transformedHeader @ ''; HttpOnly'' else transformedHeader)"

definition addSameSite :: "Config \<Rightarrow> string \<Rightarrow> string" where
  "addSameSite cfg transformedHeader =
     (if SameSite cfg \<noteq> '''' \<and> \<not> strings_Contains transformedHeader ''SameSite=''
      then transformedHeader @ ''; SameSite='' @ SameSite cfg else transformedHeader)"

definition transformHeader :: "Config \<Rightarrow> string \<Rightarrow> string \<Rightarrow> string" where
  "transformHeader cfg host setCookieHeader =
     addSameSite cfg (addHttpOnly cfg (addSecure cfg (addPath cfg (addDomain cfg host
       (strings_Replace1 setCookieHeader (SourceCookieName cfg @ ''='')
          (TargetCookieName cfg @ ''=''))))))"

text \<open>The loop over the header lines, \<open>newSetCookieHeaders\<close> being the accumulator.\<close>

fun rewriteLines :: "Config \<Rightarrow> string \<Rightarrow> string list \<Rightarrow> string list \<Rightarrow> string list" where
  "rewriteLines cfg host [] newSetCookieHeaders = newSetCookieHeaders"
| "rewriteLines cfg host (setCookieHeader # rest) newSetCookieHeaders =
     (if strings_Contains setCookieHeader (SourceCookieName cfg @ ''='')
      then rewriteLines cfg host rest
             (newSetCookieHeaders @ [transformHeader cfg host setCookieHeader])
      else rewriteLines cfg host rest (newSetCookieHeaders @ [setCookieHeader]))"

text \<open>The final loop \<open>rw.Header().Add("Set-Cookie", header)\<close>.\<close>

fun addAll :: "Header \<Rightarrow> string list \<Rightarrow> Header" where
  "addAll h [] = h"
| "addAll h (header # rest) = addAll (Header_Add h ''Set-Cookie'' header) rest"

text \<open>
  \<open>transformResponseCookies\<close> mutates the header map of the wrapped writer in place;
  the model returns the writer with the new map. \<open>setCookieLines\<close> is
  \<open>rw.Header().Values("Set-Cookie")\<close>.
\<close>

definition setCookieLines :: "responseWriter \<Rightarrow> string list" where
  "setCookieLines rw = Header_Values (rw_header (w_ResponseWriter rw)) ''Set-Cookie''"

definition transformResponseCookies :: "responseWriter \<Rightarrow> responseWriter" where
  "transformResponseCookies rw =
     (let h = rw_header (w_ResponseWriter rw);
          setCookieHeaders = setCookieLines rw
      in if length setCookieHeaders = 0 then rw
         else rw\<lparr> w_ResponseWriter := (w_ResponseWriter rw)\<lparr> rw_header :=
                addAll (Header_Del h ''Set-Cookie'')
                  (rewriteLines (w_config rw) (Host (w_req rw)) setCookieHeaders []) \<rparr> \<rparr>)"

section \<open>Serving a request\<close>

text \<open>
  The wrapped writer follows the contract of \<open>http.ResponseWriter\<close>: \<open>WriteHeader\<close>
  sends the status code with the headers as they are at that moment, a further call
  sends nothing, and \<open>Write\<close> first calls the writer's own \<open>WriteHeader\<close> with status
  200 when no status has been sent.
\<close>

definition inner_WriteHeader :: "int \<Rightarrow> ResponseWriter \<Rightarrow> ResponseWriter" where
  "inner_WriteHeader statusCode w =
     (case rw_committed w of
        None \<Rightarrow> w\<lparr> rw_committed := Some (statusCode, rw_header w) \<rparr>
      | Some sent \<Rightarrow> w)"

definition inner_Write :: "string \<Rightarrow> ResponseWriter \<Rightarrow> ResponseWriter" where
  "inner_Write bytes w =
     (let w' = (case rw_committed w of None \<Rightarrow> inner_WriteHeader 200 w | Some sent \<Rightarrow> w)
      in w'\<lparr> rw_body := rw_body w' @ bytes \<rparr>)"

text \<open>
  The method \<open>WriteHeader\<close> of \<open>responseWriter\<close>, the only method of
  \<open>http.ResponseWriter\<close> that the type declares itself.
\<close>

definition WriteHeader :: "int \<Rightarrow> responseWriter \<Rightarrow> responseWriter" where
  "WriteHeader statusCode rw =
     (let rw' = transformResponseCookies rw
      in rw'\<lparr> w_ResponseWriter := inner_WriteHeader statusCode (w_ResponseWriter rw') \<rparr>)"

text \<open>
  \<open>Write\<close> and \<open>Header\<close> are not declared by \<open>responseWriter\<close>: Go promotes them from
  the embedded writer, so a call goes to the wrapped writer directly.
\<close>

definition Write :: "string \<Rightarrow> responseWriter \<Rightarrow> responseWriter" where
  "Write bytes rw = rw\<lparr> w_ResponseWriter := inner_Write bytes (w_ResponseWriter rw) \<rparr>"

definition HeaderAdd :: "string \<Rightarrow> string \<Rightarrow> responseWriter \<Rightarrow> responseWriter" where
  "HeaderAdd k v rw =
     rw\<lparr> w_ResponseWriter :=
           (w_ResponseWriter rw)\<lparr> rw_header := Header_Add (rw_header (w_ResponseWriter rw)) k v \<rparr> \<rparr>"

text \<open>
  A next handler is modelled by the calls it makes on the writer it is given. The
  natural number beside the writer counts the runs of \<open>transformResponseCookies\<close>:
  \<open>WriteHeader\<close> is its only caller.
\<close>

datatype call = CallHeaderAdd string string | CallWriteHeader int | CallWrite string

fun perform :: "responseWriter \<times> nat \<Rightarrow> call \<Rightarrow> responseWriter \<times> nat" where
  "perform (rw, n) (CallHeaderAdd k v) = (HeaderAdd k v rw, n)"
| "perform (rw, n) (CallWriteHeader statusCode) = (WriteHeader statusCode rw, Suc n)"
| "perform (rw, n) (CallWrite bytes) = (Write bytes rw, n)"

definition ServeHTTP :: "(Request \<Rightarrow> call list) CookieModifier \<Rightarrow> Cookie list \<Rightarrow> Request
    \<Rightarrow> ResponseWriter \<Rightarrow> responseWriter \<times> nat" where
  "ServeHTTP cm cookies req rw =
     (let req' = transformRequestCookies (cm_config cm) cookies req;
          wrappedWriter = \<lparr> w_ResponseWriter = rw, w_req = req', w_config = cm_config cm \<rparr>
      in foldl perform (wrappedWriter, 0) (cm_next cm req'))"

section \<open>Facts about the library functions and the loops\<close>

lemma strings_HasPrefix_iff: "strings_HasPrefix s p \<longleftrightarrow> (\<exists>post. s = p @ post)"
  by (induction s p rule: strings_HasPrefix.induct) auto

lemma strings_Contains_iff:
  "strings_Contains s sub \<longleftrightarrow> (\<exists>pre post. s = pre @ sub @ post)"
proof (induction s)
  case Nil
  then show ?case by auto
next
  case (Cons c s)
  show ?case
  proof
    assume "strings_Contains (c # s) sub"
    then consider "strings_HasPrefix (c # s) sub" | "strings_Contains s sub"
      by (auto split: if_splits)
    then show "\<exists>pre post. c # s = pre @ sub @ post"
    proof cases
      case 1
      then obtain post where "c # s = sub @ post"
        by (auto simp: strings_HasPrefix_iff)
      then have "c # s = [] @ sub @ post" by simp
      then show ?thesis by blast
    next
      case 2
      then obtain pre post where "s = pre @ sub @ post"
        using Cons.IH by auto
      then have "c # s = (c # pre) @ sub @ post" by simp
      then show ?thesis by blast
    qed
  next
    assume "\<exists>pre post. c # s = pre @ sub @ post"
    then obtain pre post where eq: "c # s = pre @ sub @ post" by auto
    show "strings_Contains (c # s) sub"
    proof (cases pre)
      case Nil
      with eq have "strings_HasPrefix (c # s) sub"
        by (auto simp: strings_HasPrefix_iff)
      then show ?thesis by simp
    next
      case (Cons a pre')
      with eq have "s = pre' @ sub @ post" by simp
      then have "strings_Contains s sub" using Cons.IH by auto
      then show ?thesis by simp
    qed
  qed
qed

lemma strings_Replace1_no_match:
  "\<not> strings_Contains s old \<Longrightarrow> strings_Replace1 s old new = s"
  by (induction s) (auto split: if_splits)

lemma strings_Replace1_first:
  "strings_Contains s old \<Longrightarrow>
     \<exists>pre post. s = pre @ old @ post \<and> strings_Replace1 s old new = pre @ new @ post \<and>
       (\<forall>pre' post'. s = pre' @ old @ post' \<longrightarrow> length pre \<le> length pre')"
proof (induction s)
  case Nil
  then show ?case by auto
next
  case (Cons c s)
  show ?case
  proof (cases "strings_HasPrefix (c # s) old")
    case True
    then obtain post where p: "c # s = old @ post"
      by (auto simp: strings_HasPrefix_iff)
    have "strings_Replace1 (c # s) old new = new @ drop (length old) (c # s)"
      using True by simp
    with p have "c # s = [] @ old @ post \<and>
        strings_Replace1 (c # s) old new = [] @ new @ post \<and>
        (\<forall>pre' post'. c # s = pre' @ old @ post' \<longrightarrow> length ([]::string) \<le> length pre')"
      by simp
    then show ?thesis by blast
  next
    case False
    with Cons.prems have "strings_Contains s old" by simp
    from Cons.IH[OF this] obtain pre post where
      s: "s = pre @ old @ post" and r: "strings_Replace1 s old new = pre @ new @ post"
      and m: "\<forall>pre' post'. s = pre' @ old @ post' \<longrightarrow> length pre \<le> length pre'"
      by blast
    have "\<forall>pre' post'. c # s = pre' @ old @ post' \<longrightarrow> length (c # pre) \<le> length pre'"
    proof (intro allI impI)
      fix pre' post' assume e: "c # s = pre' @ old @ post'"
      show "length (c # pre) \<le> length pre'"
      proof (cases pre')
        case Nil
        with e have "strings_HasPrefix (c # s) old" by (auto simp: strings_HasPrefix_iff)
        with False show ?thesis by simp
      next
        case (Cons a q)
        with e have "s = q @ old @ post'" by simp
        with m have "length pre \<le> length q" by blast
        with Cons show ?thesis by simp
      qed
    qed
    moreover have "c # s = (c # pre) @ old @ post" using s by simp
    moreover have "strings_Replace1 (c # s) old new = (c # pre) @ new @ post"
      using False r by simp
    ultimately show ?thesis by blast
  qed
qed

lemma scanCookies_eq:
  "scanCookies cfg cookies (acc, found) =
     (acc @ filter (\<lambda>c. Name c \<noteq> SourceCookieName cfg) cookies,
      if \<exists>c\<in>set cookies. Name c = SourceCookieName cfg
      then Some (last (filter (\<lambda>c. Name c = SourceCookieName cfg) cookies)) else found)"
proof (induction cookies arbitrary: acc found)
  case Nil
  then show ?case by simp
next
  case (Cons c cookies)
  then show ?case by (auto simp: filter_empty_conv)
qed

lemma rewriteLines_eq:
  "rewriteLines cfg host ls acc =
     acc @ map (\<lambda>l. if strings_Contains l (SourceCookieName cfg @ ''='')
                     then transformHeader cfg host l else l) ls"
  by (induction ls arbitrary: acc) auto

lemma addAll_eq:
  "addAll h ls = (if ls = [] then h else h(''Set-Cookie'' \<mapsto> Header_Values h ''Set-Cookie'' @ ls))"
proof (induction ls arbitrary: h)
  case Nil
  then show ?case by simp
next
  case (Cons l ls)
  then show ?case by (auto simp: Header_Add_def Header_Values_def)
qed

section \<open>Construction: the configuration error\<close>

text \<open>
  Claim C7. \<open>New\<close> returns an error exactly when \<open>sourceCookieName\<close> or
  \<open>targetCookieName\<close> is empty. When it fails it returns no handler and prints nothing;
  when it succeeds it returns the handler that wraps the next handler with the given
  configuration and name, and its only output is the one line printed when \<open>debug\<close>
  is set.
\<close>

theorem New_fails_iff_name_empty:
  "(\<exists>e. fst (New nxt cfg name) = Inl e) =
      (SourceCookieName cfg = '''' \<or> TargetCookieName cfg = '''')
   \<and> (\<exists>cm. fst (New nxt cfg name) = Inr cm) =
      (SourceCookieName cfg \<noteq> '''' \<and> TargetCookieName cfg \<noteq> '''')
   \<and> New nxt cfg name =
      (if SourceCookieName cfg = '''' \<or> TargetCookieName cfg = '''' then
         (Inl (ConfigError (if SourceCookieName cfg = ''''
                            then ''sourceCookieName cannot be empty''
                            else ''targetCookieName cannot be empty'')), [])
       else
         (Inr \<lparr> cm_next = nxt, cm_config = cfg, cm_name = name \<rparr>,
          if Debug cfg then [Initialized cfg] else []))"
  by (simp add: New_def)

section \<open>Request phase: pass-through\<close>

text \<open>
  Claim C6. When no cookie of the request is named \<open>sourceCookieName\<close>,
  \<open>transformRequestCookies\<close> returns the request as it was: the \<open>Cookie\<close> header is not
  written at all.
\<close>

theorem transformRequestCookies_no_source:
  assumes "\<forall>c\<in>set cookies. Name c \<noteq> SourceCookieName cfg"
  shows "transformRequestCookies cfg cookies req = req"
proof -
  have "scanCookies cfg cookies ([], None) =
          (filter (\<lambda>c. Name c \<noteq> SourceCookieName cfg) cookies, None)"
    using assms by (simp add: scanCookies_eq)
  then show ?thesis
    by (simp add: transformRequestCookies_def rebuiltCookies_def)
qed

theorem transformRequestCookies_no_source_witness:
  "transformRequestCookies CreateConfig
     [\<lparr> Name = ''other_cookie'', Value = ''other_value'', Path = '''', Domain = '''' \<rparr>]
     \<lparr> Host = ''example.com'', Header = [''Cookie'' \<mapsto> [''other_cookie=other_value'']] \<rparr>
   = \<lparr> Host = ''example.com'', Header = [''Cookie'' \<mapsto> [''other_cookie=other_value'']] \<rparr>"
  using transformRequestCookies_no_source [of
      "[\<lparr> Name = ''other_cookie'', Value = ''other_value'', Path = '''', Domain = '''' \<rparr>]"
      CreateConfig]
  by (simp add: CreateConfig_def)

lemma rebuiltCookies_eq:
  "rebuiltCookies cfg cookies req =
     (if \<exists>c\<in>set cookies. Name c = SourceCookieName cfg
      then Some (filter (\<lambda>c. Name c \<noteq> SourceCookieName cfg) cookies @
             [transformedCookie cfg req
                (last (filter (\<lambda>c. Name c = SourceCookieName cfg) cookies))])
      else None)"
  by (simp add: rebuiltCookies_def scanCookies_eq)

lemma transformedCookie_fields:
  "Name (transformedCookie cfg req found) = TargetCookieName cfg"
  "Value (transformedCookie cfg req found) = Value found"
  "Cookie.Path (transformedCookie cfg req found) = Config.Path cfg"
  "Domain (transformedCookie cfg req found) = (if UseDynamicDomain cfg then Host req else '''')"
  by (simp_all add: transformedCookie_def Let_def)

lemma map_cookieString:
  "map cookieString cs = map (\<lambda>c. Name c @ ''='' @ Value c) cs"
  by (simp add: cookieString_def)

section \<open>Request phase: rewriting\<close>

text \<open>
  Claim C1. When the request has at least one cookie named \<open>sourceCookieName\<close>,
  \<open>transformRequestCookies\<close> keeps every other entry, unchanged and in its original
  order, drops every entry named \<open>sourceCookieName\<close>, appends after the kept entries
  one new entry named \<open>targetCookieName\<close> with the value of the last dropped entry, and
  sets the \<open>Cookie\<close> header to these entries written as \<open>name=value\<close> and joined by
  \<open>"; "\<close>.
\<close>

theorem transformRequestCookies_rewrites:
  assumes "\<exists>c\<in>set cookies. Name c = SourceCookieName cfg"
  shows "let kept = filter (\<lambda>c. Name c \<noteq> SourceCookieName cfg) cookies;
             found = last (filter (\<lambda>c. Name c = SourceCookieName cfg) cookies);
             new = transformedCookie cfg req found
         in Name new = TargetCookieName cfg \<and> Value new = Value found
          \<and> rebuiltCookies cfg cookies req = Some (kept @ [new])
          \<and> transformRequestCookies cfg cookies req =
              req\<lparr> Header := (Header req)(''Cookie'' \<mapsto>
                [strings_Join (map (\<lambda>c. Name c @ ''='' @ Value c) (kept @ [new])) ''; '']) \<rparr>"
proof -
  have "rebuiltCookies cfg cookies req =
          Some (filter (\<lambda>c. Name c \<noteq> SourceCookieName cfg) cookies @
             [transformedCookie cfg req
                (last (filter (\<lambda>c. Name c = SourceCookieName cfg) cookies))])"
    using assms by (simp add: rebuiltCookies_eq)
  then show ?thesis
    by (simp add: Let_def transformedCookie_fields transformRequestCookies_def
        Header_Set_def map_cookieString del: map_append)
qed

theorem transformRequestCookies_rewrites_witness:
  "transformRequestCookies CreateConfig
     [\<lparr> Name = ''flowise_token'', Value = ''abc123'', Path = '''', Domain = '''' \<rparr>,
      \<lparr> Name = ''other'', Value = ''x'', Path = '''', Domain = '''' \<rparr>]
     \<lparr> Host = ''example.com'', Header = [''Cookie'' \<mapsto> [''flowise_token=abc123; other=x'']] \<rparr>
   = \<lparr> Host = ''example.com'', Header = [''Cookie'' \<mapsto> [''other=x; simple_token=abc123'']] \<rparr>"
  using transformRequestCookies_rewrites [of
      "[\<lparr> Name = ''flowise_token'', Value = ''abc123'', Path = '''', Domain = '''' \<rparr>,
        \<lparr> Name = ''other'', Value = ''x'', Path = '''', Domain = '''' \<rparr>]"
      CreateConfig
      "\<lparr> Host = ''example.com'', Header = [''Cookie'' \<mapsto> [''flowise_token=abc123; other=x'']] \<rparr>"]
  by (simp add: CreateConfig_def Let_def transformedCookie_def)




section \<open>Response phase: the rewritten lines\<close>

lemma setCookieLines_transformResponseCookies:
  "setCookieLines (transformResponseCookies rw) =
     map (\<lambda>l. if strings_Contains l (SourceCookieName (w_config rw) @ ''='')
              then transformHeader (w_config rw) (Host (w_req rw)) l else l)
       (setCookieLines rw)"
proof (cases "setCookieLines rw = []")
  case True
  then show ?thesis by (simp add: transformResponseCookies_def)
next
  case False
  then show ?thesis
    by (simp add: transformResponseCookies_def Let_def rewriteLines_eq addAll_eq
        setCookieLines_def Header_Del_def Header_Values_def)
qed

lemma transformResponseCookies_frame:
  "k \<noteq> ''Set-Cookie'' \<Longrightarrow>
     rw_header (w_ResponseWriter (transformResponseCookies rw)) k =
     rw_header (w_ResponseWriter rw) k"
  by (simp add: transformResponseCookies_def Let_def addAll_eq Header_Del_def)

lemma addDomain_append:
  "addDomain cfg host t =
     t @ (if UseDynamicDomain cfg \<and> \<not> strings_Contains t ''Domain=''
          then ''; Domain='' @ host else '''')"
  by (simp add: addDomain_def)

lemma addPath_append:
  "addPath cfg t =
     t @ (if Config.Path cfg \<noteq> ''/'' \<and> \<not> strings_Contains t ''Path=''
          then ''; Path='' @ Config.Path cfg else '''')"
  by (simp add: addPath_def)

lemma addSecure_append:
  "addSecure cfg t =
     t @ (if Secure cfg \<and> \<not> strings_Contains t ''Secure'' then ''; Secure'' else '''')"
  by (simp add: addSecure_def)

lemma addHttpOnly_append:
  "addHttpOnly cfg t =
     t @ (if HttpOnly cfg \<and> \<not> strings_Contains t ''HttpOnly'' then ''; HttpOnly'' else '''')"
  by (simp add: addHttpOnly_def)

lemma addSameSite_append:
  "addSameSite cfg t =
     t @ (if SameSite cfg \<noteq> '''' \<and> \<not> strings_Contains t ''SameSite=''
          then ''; SameSite='' @ SameSite cfg else '''')"
  by (simp add: addSameSite_def)

lemma transformHeader_unfold:
  "transformHeader cfg host l =
     (let t0 = strings_Replace1 l (SourceCookieName cfg @ ''='') (TargetCookieName cfg @ ''='');
          t1 = t0 @ (if UseDynamicDomain cfg \<and> \<not> strings_Contains t0 ''Domain=''
                     then ''; Domain='' @ host else '''');
          t2 = t1 @ (if Config.Path cfg \<noteq> ''/'' \<and> \<not> strings_Contains t1 ''Path=''
                     then ''; Path='' @ Config.Path cfg else '''');
          t3 = t2 @ (if Secure cfg \<and> \<not> strings_Contains t2 ''Secure''
                     then ''; Secure'' else '''');
          t4 = t3 @ (if HttpOnly cfg \<and> \<not> strings_Contains t3 ''HttpOnly''
                     then ''; HttpOnly'' else '''');
          t5 = t4 @ (if SameSite cfg \<noteq> '''' \<and> \<not> strings_Contains t4 ''SameSite=''
                     then ''; SameSite='' @ SameSite cfg else '''')
      in t5)"
  unfolding transformHeader_def
  by (simp only: Let_def addDomain_append addPath_append addSecure_append
      addHttpOnly_append addSameSite_append)

lemma transformHeader_attrs:
  "\<exists>attrs. transformHeader cfg host l =
     strings_Replace1 l (SourceCookieName cfg @ ''='') (TargetCookieName cfg @ ''='') @ attrs"
  unfolding transformHeader_def
  by (simp only: addDomain_append addPath_append addSecure_append
      addHttpOnly_append addSameSite_append append_assoc) blast

lemma transformHeader_split:
  assumes "strings_Contains l (SourceCookieName cfg @ ''='')"
  shows "\<exists>pre post attrs. l = pre @ (SourceCookieName cfg @ ''='') @ post
     \<and> (\<forall>pre' post'. l = pre' @ (SourceCookieName cfg @ ''='') @ post'
            \<longrightarrow> length pre \<le> length pre')
     \<and> transformHeader cfg host l = pre @ (TargetCookieName cfg @ ''='') @ post @ attrs"
proof -
  obtain pre post where
    1: "l = pre @ (SourceCookieName cfg @ ''='') @ post" and
    2: "strings_Replace1 l (SourceCookieName cfg @ ''='') (TargetCookieName cfg @ ''='') =
          pre @ (TargetCookieName cfg @ ''='') @ post" and
    3: "\<forall>pre' post'. l = pre' @ (SourceCookieName cfg @ ''='') @ post'
            \<longrightarrow> length pre \<le> length pre'"
    using strings_Replace1_first [OF assms] by blast
  obtain attrs where "transformHeader cfg host l =
      strings_Replace1 l (SourceCookieName cfg @ ''='') (TargetCookieName cfg @ ''='') @ attrs"
    using transformHeader_attrs by blast
  with 2 have "transformHeader cfg host l = pre @ (TargetCookieName cfg @ ''='') @ post @ attrs"
    by simp
  with 1 3 show ?thesis by blast
qed

text \<open>The definitions to unfold when the response phase is evaluated on a concrete writer.\<close>

lemmas response_eval = transformResponseCookies_def setCookieLines_def Header_Values_def
  Header_Del_def Header_Add_def transformHeader_def addDomain_def addPath_def addSecure_def
  addHttpOnly_def addSameSite_def CreateConfig_def Let_def

lemma strings_Contains_transformHeader:
  assumes "strings_Contains l (SourceCookieName cfg @ ''='')"
  shows "strings_Contains (transformHeader cfg host l) (TargetCookieName cfg @ ''='')"
proof -
  obtain pre post attrs where
    "transformHeader cfg host l = pre @ (TargetCookieName cfg @ ''='') @ post @ attrs"
    using transformHeader_split [OF assms] by blast
  then show ?thesis
    using strings_Contains_iff [of "transformHeader cfg host l" "TargetCookieName cfg @ ''=''"]
    by blast
qed

text \<open>
  Claim C3. \<open>transformResponseCookies\<close> keeps the number and the order of the
  \<open>Set-Cookie\<close> lines and leaves every other header alone. A line is rewritten if
  and only if \<open>sourceCookieName\<close> followed by \<open>=\<close> occurs somewhere in its text; then
  the first occurrence is replaced by \<open>targetCookieName\<close> followed by \<open>=\<close>, the text
  before and after it stays as it was, and attributes may only be appended at the end.
  A line without that substring is passed through verbatim.
\<close>

theorem transformResponseCookies_lines:
  "length (setCookieLines (transformResponseCookies rw)) = length (setCookieLines rw)
   \<and> (\<forall>i<length (setCookieLines rw).
        let line = setCookieLines rw ! i;
            out = setCookieLines (transformResponseCookies rw) ! i;
            old = SourceCookieName (w_config rw) @ ''='';
            new = TargetCookieName (w_config rw) @ ''=''
        in if \<exists>pre post. line = pre @ old @ post
           then \<exists>pre post attrs. line = pre @ old @ post
                  \<and> (\<forall>pre' post'. line = pre' @ old @ post' \<longrightarrow> length pre \<le> length pre')
                  \<and> out = pre @ new @ post @ attrs
           else out = line)
   \<and> (\<forall>k. k \<noteq> ''Set-Cookie'' \<longrightarrow>
         rw_header (w_ResponseWriter (transformResponseCookies rw)) k =
         rw_header (w_ResponseWriter rw) k)"
proof (intro conjI allI impI)
  show "length (setCookieLines (transformResponseCookies rw)) = length (setCookieLines rw)"
    by (simp add: setCookieLines_transformResponseCookies)
next
  fix i assume i: "i < length (setCookieLines rw)"
  let ?line = "setCookieLines rw ! i"
  let ?old = "SourceCookieName (w_config rw) @ ''=''"
  have out: "setCookieLines (transformResponseCookies rw) ! i =
      (if strings_Contains ?line ?old
       then transformHeader (w_config rw) (Host (w_req rw)) ?line else ?line)"
    using i by (simp add: setCookieLines_transformResponseCookies)
  show "let line = setCookieLines rw ! i;
            out = setCookieLines (transformResponseCookies rw) ! i;
            old = SourceCookieName (w_config rw) @ ''='';
            new = TargetCookieName (w_config rw) @ ''=''
        in if \<exists>pre post. line = pre @ old @ post
           then \<exists>pre post attrs. line = pre @ old @ post
                  \<and> (\<forall>pre' post'. line = pre' @ old @ post' \<longrightarrow> length pre \<le> length pre')
                  \<and> out = pre @ new @ post @ attrs
           else out = line"
  proof (cases "strings_Contains ?line ?old")
    case True
    then have ex: "\<exists>pre post. ?line = pre @ ?old @ post"
      using strings_Contains_iff [of ?line ?old] by blast
    from transformHeader_split [OF True, of "Host (w_req rw)"] out True ex
    show ?thesis unfolding Let_def by (simp only: if_True)
  next
    case False
    then have "\<not> (\<exists>pre post. ?line = pre @ ?old @ post)"
      using strings_Contains_iff [of ?line ?old] by blast
    with out False show ?thesis by (simp add: Let_def)
  qed
next
  fix k :: string assume "k \<noteq> ''Set-Cookie''"
  then show "rw_header (w_ResponseWriter (transformResponseCookies rw)) k =
         rw_header (w_ResponseWriter rw) k"
    by (rule transformResponseCookies_frame)
qed

theorem transformResponseCookies_lines_witness:
  "setCookieLines (transformResponseCookies
     \<lparr> w_ResponseWriter = \<lparr> rw_header = [''Set-Cookie'' \<mapsto> [''flowise_token=xyz; Path=/'', ''a=b'']],
                            rw_committed = None, rw_body = '''' \<rparr>,
       w_req = \<lparr> Host = ''example.com'', Header = Map.empty \<rparr>,
       w_config = CreateConfig \<rparr>)
   = [''simple_token=xyz; Path=/; Domain=example.com; SameSite=Lax'', ''a=b'']"
  using transformResponseCookies_lines [of
     "\<lparr> w_ResponseWriter = \<lparr> rw_header = [''Set-Cookie'' \<mapsto> [''flowise_token=xyz; Path=/'', ''a=b'']],
                            rw_committed = None, rw_body = '''' \<rparr>,
       w_req = \<lparr> Host = ''example.com'', Header = Map.empty \<rparr>,
       w_config = CreateConfig \<rparr>"]
  by (simp add: response_eval)

text \<open>
  Claim C4, amended. After \<open>transformResponseCookies\<close> the \<open>Set-Cookie\<close> lines keep their
  number and order. A line that did not contain \<open>sourceCookieName=\<close> is unchanged. A line
  that contained it becomes the line with one occurrence of \<open>sourceCookieName=\<close> replaced by
  \<open>targetCookieName=\<close>, the text around it (value and attributes) kept, followed by the
  configured attributes that were not present. A line contains \<open>targetCookieName=\<close>
  afterwards if and only if it contained \<open>sourceCookieName=\<close> or \<open>targetCookieName=\<close>
  before, so exactly one line does when exactly one line did before.
\<close>

theorem transformResponseCookies_target_lines:
  "let lines = setCookieLines rw;
       out = setCookieLines (transformResponseCookies rw);
       old = SourceCookieName (w_config rw) @ ''='';
       new = TargetCookieName (w_config rw) @ ''=''
   in length out = length lines
    \<and> (\<forall>i<length lines.
          (\<not> strings_Contains (lines ! i) old \<longrightarrow> out ! i = lines ! i)
        \<and> (strings_Contains (lines ! i) old \<longrightarrow>
             out ! i = transformHeader (w_config rw) (Host (w_req rw)) (lines ! i)
           \<and> (\<exists>pre post attrs. lines ! i = pre @ old @ post
                 \<and> out ! i = pre @ new @ post @ attrs))
        \<and> strings_Contains (out ! i) new =
             (strings_Contains (lines ! i) old \<or> strings_Contains (lines ! i) new))
    \<and> length (filter (\<lambda>l. strings_Contains l new) out) =
        length (filter (\<lambda>l. strings_Contains l old \<or> strings_Contains l new) lines)"
proof -
  let ?old = "SourceCookieName (w_config rw) @ ''=''"
  let ?new = "TargetCookieName (w_config rw) @ ''=''"
  define f where "f = (\<lambda>l. if strings_Contains l ?old
              then transformHeader (w_config rw) (Host (w_req rw)) l else l)"
  have out: "setCookieLines (transformResponseCookies rw) = map f (setCookieLines rw)"
    unfolding f_def by (rule setCookieLines_transformResponseCookies)
  have c: "strings_Contains (f l) ?new = (strings_Contains l ?old \<or> strings_Contains l ?new)"
    for l
    by (simp add: f_def strings_Contains_transformHeader)
  have u: "\<not> strings_Contains l ?old \<Longrightarrow> f l = l" for l
    by (simp add: f_def)
  have t: "strings_Contains l ?old \<Longrightarrow>
      f l = transformHeader (w_config rw) (Host (w_req rw)) l" for l
    by (simp add: f_def)
  have s: "strings_Contains l ?old \<Longrightarrow>
      \<exists>pre post attrs. l = pre @ ?old @ post \<and> f l = pre @ ?new @ post @ attrs" for l
    using transformHeader_split [of l "w_config rw" "Host (w_req rw)"] t [of l] by auto
  have n: "length (filter (\<lambda>l. strings_Contains l ?new) (map f ls)) =
        length (filter (\<lambda>l. strings_Contains l ?old \<or> strings_Contains l ?new) ls)" for ls
    by (simp add: filter_map comp_def c)
  have i: "(\<not> strings_Contains l ?old \<longrightarrow> f l = l)
        \<and> (strings_Contains l ?old \<longrightarrow>
             f l = transformHeader (w_config rw) (Host (w_req rw)) l
           \<and> (\<exists>pre post attrs. l = pre @ ?old @ post \<and> f l = pre @ ?new @ post @ attrs))
        \<and> strings_Contains (f l) ?new = (strings_Contains l ?old \<or> strings_Contains l ?new)"
    for l
    using c [of l] u [of l] t [of l] s [of l] by blast
  have a: "\<forall>i<length (setCookieLines rw).
        (\<not> strings_Contains (setCookieLines rw ! i) ?old \<longrightarrow>
            map f (setCookieLines rw) ! i = setCookieLines rw ! i)
        \<and> (strings_Contains (setCookieLines rw ! i) ?old \<longrightarrow>
             map f (setCookieLines rw) ! i =
               transformHeader (w_config rw) (Host (w_req rw)) (setCookieLines rw ! i)
           \<and> (\<exists>pre post attrs. setCookieLines rw ! i = pre @ ?old @ post
                 \<and> map f (setCookieLines rw) ! i = pre @ ?new @ post @ attrs))
        \<and> strings_Contains (map f (setCookieLines rw) ! i) ?new =
             (strings_Contains (setCookieLines rw ! i) ?old
              \<or> strings_Contains (setCookieLines rw ! i) ?new)"
  proof (intro allI impI)
    fix i assume "i < length (setCookieLines rw)"
    then have m: "map f (setCookieLines rw) ! i = f (setCookieLines rw ! i)" by simp
    show "(\<not> strings_Contains (setCookieLines rw ! i) ?old \<longrightarrow>
            map f (setCookieLines rw) ! i = setCookieLines rw ! i)
        \<and> (strings_Contains (setCookieLines rw ! i) ?old \<longrightarrow>
             map f (setCookieLines rw) ! i =
               transformHeader (w_config rw) (Host (w_req rw)) (setCookieLines rw ! i)
           \<and> (\<exists>pre post attrs. setCookieLines rw ! i = pre @ ?old @ post
                 \<and> map f (setCookieLines rw) ! i = pre @ ?new @ post @ attrs))
        \<and> strings_Contains (map f (setCookieLines rw) ! i) ?new =
             (strings_Contains (setCookieLines rw ! i) ?old
              \<or> strings_Contains (setCookieLines rw ! i) ?new)"
      unfolding m by (rule i)
  qed
  have b: "length (map f (setCookieLines rw)) = length (setCookieLines rw)" by simp
  show ?thesis
    unfolding Let_def out using a b n [of "setCookieLines rw"] by (intro conjI) assumption+
qed

theorem transformResponseCookies_target_lines_witness:
  "setCookieLines (transformResponseCookies
     \<lparr> w_ResponseWriter = \<lparr> rw_header = [''Set-Cookie'' \<mapsto>
                              [''session=1'', ''flowise_token=xyz; Path=/'']],
                            rw_committed = None, rw_body = '''' \<rparr>,
       w_req = \<lparr> Host = ''example.com'', Header = Map.empty \<rparr>,
       w_config = CreateConfig \<rparr>)
     = [''session=1'', ''simple_token=xyz; Path=/; Domain=example.com; SameSite=Lax'']
   \<and> length (filter (\<lambda>l. strings_Contains l ''simple_token='')
       (setCookieLines (transformResponseCookies
         \<lparr> w_ResponseWriter = \<lparr> rw_header = [''Set-Cookie'' \<mapsto>
                                  [''session=1'', ''flowise_token=xyz; Path=/'']],
                                rw_committed = None, rw_body = '''' \<rparr>,
           w_req = \<lparr> Host = ''example.com'', Header = Map.empty \<rparr>,
           w_config = CreateConfig \<rparr>))) = 1"
  using transformResponseCookies_target_lines [of
     "\<lparr> w_ResponseWriter = \<lparr> rw_header = [''Set-Cookie'' \<mapsto>
                              [''session=1'', ''flowise_token=xyz; Path=/'']],
                            rw_committed = None, rw_body = '''' \<rparr>,
       w_req = \<lparr> Host = ''example.com'', Header = Map.empty \<rparr>,
       w_config = CreateConfig \<rparr>"]
  by (simp add: response_eval)

text \<open>
  Claim C4 as stated fails. When the handler sets the source cookie on two lines, two
  lines contain \<open>simple_token=\<close> afterwards; and when the value of the source cookie
  embeds \<open>flowise_token=\<close>, the rewritten line still contains it, since only the first
  occurrence is replaced.
\<close>

theorem transformResponseCookies_exactly_one_counterexample:
  "setCookieLines (transformResponseCookies
     \<lparr> w_ResponseWriter = \<lparr> rw_header = [''Set-Cookie'' \<mapsto>
                              [''flowise_token=a; Path=/'', ''flowise_token=b; Path=/'']],
                            rw_committed = None, rw_body = '''' \<rparr>,
       w_req = \<lparr> Host = ''example.com'', Header = Map.empty \<rparr>,
       w_config = CreateConfig \<rparr>)
     = [''simple_token=a; Path=/; Domain=example.com; SameSite=Lax'',
        ''simple_token=b; Path=/; Domain=example.com; SameSite=Lax'']
   \<and> setCookieLines (transformResponseCookies
     \<lparr> w_ResponseWriter = \<lparr> rw_header = [''Set-Cookie'' \<mapsto>
                              [''flowise_token=flowise_token=x; Path=/'']],
                            rw_committed = None, rw_body = '''' \<rparr>,
       w_req = \<lparr> Host = ''example.com'', Header = Map.empty \<rparr>,
       w_config = CreateConfig \<rparr>)
     = [''simple_token=flowise_token=x; Path=/; Domain=example.com; SameSite=Lax'']
   \<and> strings_Contains ''simple_token=flowise_token=x; Path=/; Domain=example.com; SameSite=Lax''
        ''flowise_token=''"
  by (simp add: response_eval)

text \<open>
  Claim C5. For a line that matches, the result is the renamed line \<open>t0\<close> followed, in
  this order, by \<open>; Domain=host\<close> when \<open>useDynamicDomain\<close> is set and \<open>Domain=\<close> does not
  occur, \<open>; Path=path\<close> when the configured path is not \<open>/\<close> and \<open>Path=\<close> does not
  occur, \<open>; Secure\<close> when \<open>secure\<close> is set and \<open>Secure\<close> does not occur, \<open>; HttpOnly\<close>
  when \<open>httpOnly\<close> is set and \<open>HttpOnly\<close> does not occur, and \<open>; SameSite=value\<close> when
  \<open>sameSite\<close> is not empty and \<open>SameSite=\<close> does not occur. Each test reads the line as
  it stands at that step, after the renaming and the earlier additions.
\<close>

theorem transformResponseCookies_appends:
  assumes "i < length (setCookieLines rw)"
      and "strings_Contains (setCookieLines rw ! i) (SourceCookieName (w_config rw) @ ''='')"
  shows "let cfg = w_config rw;
             t0 = strings_Replace1 (setCookieLines rw ! i) (SourceCookieName cfg @ ''='')
                    (TargetCookieName cfg @ ''='');
             t1 = t0 @ (if UseDynamicDomain cfg \<and> \<not> strings_Contains t0 ''Domain=''
                        then ''; Domain='' @ Host (w_req rw) else '''');
             t2 = t1 @ (if Config.Path cfg \<noteq> ''/'' \<and> \<not> strings_Contains t1 ''Path=''
                        then ''; Path='' @ Config.Path cfg else '''');
             t3 = t2 @ (if Secure cfg \<and> \<not> strings_Contains t2 ''Secure''
                        then ''; Secure'' else '''');
             t4 = t3 @ (if HttpOnly cfg \<and> \<not> strings_Contains t3 ''HttpOnly''
                        then ''; HttpOnly'' else '''');
             t5 = t4 @ (if SameSite cfg \<noteq> '''' \<and> \<not> strings_Contains t4 ''SameSite=''
                        then ''; SameSite='' @ SameSite cfg else '''')
         in setCookieLines (transformResponseCookies rw) ! i = t5"
proof -
  have "setCookieLines (transformResponseCookies rw) ! i =
      transformHeader (w_config rw) (Host (w_req rw)) (setCookieLines rw ! i)"
    using assms by (simp add: setCookieLines_transformResponseCookies)
  then show ?thesis
    by (simp only: transformHeader_unfold Let_def)
qed

theorem transformResponseCookies_appends_witness:
  "setCookieLines (transformResponseCookies
     \<lparr> w_ResponseWriter = \<lparr> rw_header = [''Set-Cookie'' \<mapsto>
                              [''a=b'', ''flowise_token=xyz; HttpOnly'']],
                            rw_committed = None, rw_body = '''' \<rparr>,
       w_req = \<lparr> Host = ''example.com'', Header = Map.empty \<rparr>,
       w_config = CreateConfig\<lparr> Secure := True, HttpOnly := True, Path := ''/app'' \<rparr> \<rparr>) ! 1
     = ''simple_token=xyz; HttpOnly; Domain=example.com; Path=/app; Secure; SameSite=Lax''"
  using transformResponseCookies_appends [of 1
     "\<lparr> w_ResponseWriter = \<lparr> rw_header = [''Set-Cookie'' \<mapsto>
                              [''a=b'', ''flowise_token=xyz; HttpOnly'']],
                            rw_committed = None, rw_body = '''' \<rparr>,
       w_req = \<lparr> Host = ''example.com'', Header = Map.empty \<rparr>,
       w_config = CreateConfig\<lparr> Secure := True, HttpOnly := True, Path := ''/app'' \<rparr> \<rparr>"]
  by (simp add: response_eval)

section \<open>Response phase: applying the transformation twice\<close>

text \<open>
  Claim C9. The response phase is not idempotent: with the source name \<open>token\<close> and the
  target name \<open>my_token\<close>, a configuration that \<open>New\<close> accepts and whose
  \<open>targetCookieName=\<close> contains \<open>sourceCookieName=\<close>, a second run renames the line again.
\<close>

theorem transformResponseCookies_not_idempotent:
  "let cfg = CreateConfig\<lparr> SourceCookieName := ''token'', TargetCookieName := ''my_token'' \<rparr>;
       rw = \<lparr> w_ResponseWriter = \<lparr> rw_header = [''Set-Cookie'' \<mapsto> [''token=xyz; Path=/'']],
                                   rw_committed = None, rw_body = '''' \<rparr>,
              w_req = \<lparr> Host = ''example.com'', Header = Map.empty \<rparr>,
              w_config = cfg \<rparr>
   in fst (New nxt cfg name) = Inr \<lparr> cm_next = nxt, cm_config = cfg, cm_name = name \<rparr>
    \<and> strings_Contains (TargetCookieName cfg @ ''='') (SourceCookieName cfg @ ''='')
    \<and> setCookieLines (transformResponseCookies rw) =
         [''my_token=xyz; Path=/; Domain=example.com; SameSite=Lax'']
    \<and> setCookieLines (transformResponseCookies (transformResponseCookies rw)) =
         [''my_my_token=xyz; Path=/; Domain=example.com; SameSite=Lax'']
    \<and> transformResponseCookies (transformResponseCookies rw) \<noteq> transformResponseCookies rw"
proof -
  let ?cfg = "CreateConfig\<lparr> SourceCookieName := ''token'', TargetCookieName := ''my_token'' \<rparr>"
  let ?rw = "\<lparr> w_ResponseWriter = \<lparr> rw_header = [''Set-Cookie'' \<mapsto> [''token=xyz; Path=/'']],
                                   rw_committed = None, rw_body = '''' \<rparr>,
              w_req = \<lparr> Host = ''example.com'', Header = Map.empty \<rparr>,
              w_config = ?cfg \<rparr>"
  have n: "fst (New nxt ?cfg name) = Inr \<lparr> cm_next = nxt, cm_config = ?cfg, cm_name = name \<rparr>"
    by (simp add: New_def CreateConfig_def)
  have c: "strings_Contains (TargetCookieName ?cfg @ ''='') (SourceCookieName ?cfg @ ''='')"
    by (simp add: CreateConfig_def)
  have once: "setCookieLines (transformResponseCookies ?rw) =
         [''my_token=xyz; Path=/; Domain=example.com; SameSite=Lax'']"
    by (simp add: response_eval)
  have twice: "setCookieLines (transformResponseCookies (transformResponseCookies ?rw)) =
         [''my_my_token=xyz; Path=/; Domain=example.com; SameSite=Lax'']"
    by (simp add: response_eval)
  have "setCookieLines (transformResponseCookies (transformResponseCookies ?rw)) \<noteq>
        setCookieLines (transformResponseCookies ?rw)"
    unfolding once twice by simp
  then have d: "transformResponseCookies (transformResponseCookies ?rw) \<noteq>
        transformResponseCookies ?rw"
    by auto
  show ?thesis
    unfolding Let_def using n c once twice d by (intro conjI) assumption+
qed

section \<open>Response phase: the empty host\<close>

text \<open>
  Claim C10. With \<open>useDynamicDomain\<close> set and an empty request host, a matching line
  whose renamed text has no \<open>Domain=\<close> gets \<open>; Domain=\<close> with an empty value appended
  (before the later attributes): the response phase does not test the host. The request
  phase does, and leaves the domain of the new cookie unset for an empty host.
\<close>

theorem transformResponseCookies_empty_host:
  assumes "UseDynamicDomain (w_config rw)"
      and "Host (w_req rw) = ''''"
      and "i < length (setCookieLines rw)"
      and "strings_Contains (setCookieLines rw ! i) (SourceCookieName (w_config rw) @ ''='')"
      and "\<not> strings_Contains
             (strings_Replace1 (setCookieLines rw ! i) (SourceCookieName (w_config rw) @ ''='')
                (TargetCookieName (w_config rw) @ ''='')) ''Domain=''"
  shows "let cfg = w_config rw;
             t0 = strings_Replace1 (setCookieLines rw ! i) (SourceCookieName cfg @ ''='')
                    (TargetCookieName cfg @ ''='')
         in setCookieLines (transformResponseCookies rw) ! i =
              addSameSite cfg (addHttpOnly cfg (addSecure cfg (addPath cfg (t0 @ ''; Domain=''))))
          \<and> (\<exists>attrs. setCookieLines (transformResponseCookies rw) ! i =
                t0 @ ''; Domain='' @ attrs)
          \<and> Domain (transformedCookie cfg (w_req rw) found) = ''''"
proof -
  let ?cfg = "w_config rw"
  let ?t0 = "strings_Replace1 (setCookieLines rw ! i) (SourceCookieName ?cfg @ ''='')
                    (TargetCookieName ?cfg @ ''='')"
  have out: "setCookieLines (transformResponseCookies rw) ! i =
      transformHeader ?cfg '''' (setCookieLines rw ! i)"
    using assms by (simp add: setCookieLines_transformResponseCookies)
  have d: "addDomain ?cfg '''' ?t0 = ?t0 @ ''; Domain=''"
    using assms(1,5) by (simp add: addDomain_def)
  have 1: "setCookieLines (transformResponseCookies rw) ! i =
      addSameSite ?cfg (addHttpOnly ?cfg (addSecure ?cfg (addPath ?cfg (?t0 @ ''; Domain=''))))"
    unfolding out transformHeader_def d ..
  have 2: "\<exists>attrs. setCookieLines (transformResponseCookies rw) ! i = ?t0 @ ''; Domain='' @ attrs"
    unfolding 1
    by (simp only: addPath_append addSecure_append addHttpOnly_append addSameSite_append
        append_assoc) blast
  have 3: "Domain (transformedCookie ?cfg (w_req rw) found) = ''''"
    using assms(2) by (simp add: transformedCookie_def Let_def)
  show ?thesis
    unfolding Let_def using 1 2 3 by (intro conjI) assumption+
qed

theorem transformResponseCookies_empty_host_witness:
  "setCookieLines (transformResponseCookies
     \<lparr> w_ResponseWriter = \<lparr> rw_header = [''Set-Cookie'' \<mapsto> [''flowise_token=xyz; Path=/'']],
                            rw_committed = None, rw_body = '''' \<rparr>,
       w_req = \<lparr> Host = '''', Header = Map.empty \<rparr>,
       w_config = CreateConfig \<rparr>) ! 0
     = ''simple_token=xyz; Path=/; Domain=; SameSite=Lax''
   \<and> rebuiltCookies CreateConfig
       [\<lparr> Name = ''flowise_token'', Value = ''abc'', Path = '''', Domain = '''' \<rparr>]
       \<lparr> Host = '''', Header = Map.empty \<rparr>
     = Some [\<lparr> Name = ''simple_token'', Value = ''abc'', Path = ''/'', Domain = '''' \<rparr>]"
  using transformResponseCookies_empty_host [of
     "\<lparr> w_ResponseWriter = \<lparr> rw_header = [''Set-Cookie'' \<mapsto> [''flowise_token=xyz; Path=/'']],
                            rw_committed = None, rw_body = '''' \<rparr>,
       w_req = \<lparr> Host = '''', Header = Map.empty \<rparr>,
       w_config = CreateConfig \<rparr>" 0]
  by (simp add: response_eval rebuiltCookies_def transformedCookie_def)

section \<open>Serving a request: when the response phase runs\<close>

text \<open>
  Claim C8. The claim does not hold of the source: the response phase runs once per
  call of \<open>WriteHeader\<close> on the wrapper. A handler that sets the source cookie and then
  only calls \<open>Write\<close> never reaches it (no run; the response is sent with status 200
  and the cookie under its source name), a handler that calls \<open>WriteHeader\<close> once gets
  one run, and one that calls it twice gets two.
\<close>

theorem ServeHTTP_Write_skips_transform:
  "let cfg = CreateConfig;
       req = \<lparr> Host = ''example.com'', Header = Map.empty \<rparr>;
       w = \<lparr> rw_header = Map.empty, rw_committed = None, rw_body = '''' \<rparr>;
       sent = (\<lambda>(rw, n). (n, map_option (\<lambda>(statusCode, h). (statusCode, Header_Values h ''Set-Cookie''))
                 (rw_committed (w_ResponseWriter rw))))
   in sent (ServeHTTP \<lparr> cm_next = (\<lambda>r. [CallHeaderAdd ''Set-Cookie'' ''flowise_token=xyz; Path=/'',
                                        CallWrite ''ok'']),
                        cm_config = cfg, cm_name = ''plugin'' \<rparr> [] req w)
        = (0, Some (200, [''flowise_token=xyz; Path=/'']))
    \<and> sent (ServeHTTP \<lparr> cm_next = (\<lambda>r. [CallHeaderAdd ''Set-Cookie'' ''flowise_token=xyz; Path=/'',
                                        CallWriteHeader 200, CallWrite ''ok'']),
                        cm_config = cfg, cm_name = ''plugin'' \<rparr> [] req w)
        = (1, Some (200, [''simple_token=xyz; Path=/; Domain=example.com; SameSite=Lax'']))
    \<and> sent (ServeHTTP \<lparr> cm_next = (\<lambda>r. [CallHeaderAdd ''Set-Cookie'' ''flowise_token=xyz; Path=/'',
                                        CallWriteHeader 200, CallWriteHeader 200]),
                        cm_config = cfg, cm_name = ''plugin'' \<rparr> [] req w)
        = (2, Some (200, [''simple_token=xyz; Path=/; Domain=example.com; SameSite=Lax'']))"
  by (simp add: ServeHTTP_def transformRequestCookies_def rebuiltCookies_def WriteHeader_def
      Write_def HeaderAdd_def inner_WriteHeader_def inner_Write_def response_eval)

end
